theory Spec2Isabelle
  imports Complex_Main "HOL-Library.Log_Nat"
begin

section \<open>Python values used by the embedding\<close>

text \<open>
  A Python \<open>str\<close> is a \<open>string\<close>, one \<open>char\<close> per code point; the embedding
  covers the code points below 256. Exceptions are values of \<open>pyerr\<close>, and a function
  that can raise returns \<open>pyerr + 'a\<close> with \<open>Inl\<close> for the exception.
\<close>

datatype pyerr =
    FileNotFoundError
  | FileExistsError
  | ValueError
  | UnicodeDecodeError
  | TypeError
  | AttributeError
  | OverflowError
  | OSError
  | YAMLError
  | OtherError





section \<open>The byte-size filter of the template engine\<close>












section \<open>The configuration store\<close>

text \<open>
  \<open>ConfigManager\<close> of \<open>adn/utils/config.py\<close>. A configuration is a Python \<open>dict\<close> from
  setting names to scalar values.
\<close>

datatype cfgval = VStr string | VBool bool | VInt int | VNone

type_synonym config = "string \<rightharpoonup> cfgval"

definition default_config :: config where
  "default_config =
     [''default_template'' \<mapsto> VStr ''default'',
      ''output_suffix'' \<mapsto> VStr ''_extraccion'',
      ''default_output_dir'' \<mapsto> VStr ''.'',
      ''log_level'' \<mapsto> VStr ''INFO'',
      ''auto_open_generated'' \<mapsto> VBool False,
      ''preserve_structure'' \<mapsto> VBool True,
      ''date_format'' \<mapsto> VStr ''%d/%m/%Y %H:%M'',
      ''encoding'' \<mapsto> VStr ''utf-8'',
      ''max_filename_length'' \<mapsto> VInt 100]"

text \<open>
  PyYAML is a library outside the repository. The bytes of a file have an arbitrary type
  \<open>'b\<close>, and the two library calls are parameters of the operations:
  \<open>load :: 'b \<Rightarrow> pyerr + yaml_value\<close> is \<open>yaml.safe_load\<close> on a file opened as UTF-8 text,
  \<open>dump :: config \<Rightarrow> 'b\<close> is \<open>yaml.dump\<close>. The value that \<open>safe_load\<close> returns is
  \<^item> \<open>YFalsy\<close>: \<open>None\<close> (an empty document) or another false value, which
    \<open>yaml.safe_load(f) or {}\<close> replaces by the empty dict;
  \<^item> \<open>YDict m\<close>: a mapping;
  \<^item> \<open>YPairs ps\<close>: a sequence of key/value pairs, which \<open>dict.update\<close> accepts too;
  \<^item> \<open>YOther e\<close>: any other value, with the exception (\<open>TypeError\<close> or
    \<open>ValueError\<close>) that \<open>dict.update\<close> raises on it.
\<close>

datatype yaml_value = YFalsy | YDict config | YPairs "(string \<times> cfgval) list" | YOther pyerr


text \<open>
  The state of a \<open>ConfigManager\<close>: the files under the configuration directory (a path
  is present when the file exists) and the attribute \<open>_config_cache\<close>. Directories are
  not part of the state: \<open>mkdir(parents=True, exist_ok=True)\<close> changes nothing that the
  operations read.
\<close>

record 'b store =
  files :: "string \<rightharpoonup> 'b"
  config_cache :: "config option"

definition config_dir :: string where
  "config_dir = ''~/.adn''"

definition config_file :: string where
  "config_file = config_dir @ ''/config.yaml''"




definition write_config :: "(config \<Rightarrow> 'b) \<Rightarrow> 'b store \<Rightarrow> config \<Rightarrow> 'b store" where
  "write_config dump st config = st\<lparr>files := (files st)(config_file \<mapsto> dump config)\<rparr>"

definition init_config ::
  "(config \<Rightarrow> 'b) \<Rightarrow> 'b store \<Rightarrow> bool \<Rightarrow> (pyerr + string) \<times> 'b store" where
  "init_config dump st force =
     (if files st config_file \<noteq> None \<and> \<not> force then (Inl FileExistsError, st)
      else (Inr config_file, (write_config dump st default_config)\<lparr>config_cache := None\<rparr>))"


definition reset_config :: "(config \<Rightarrow> 'b) \<Rightarrow> 'b store \<Rightarrow> 'b store" where
  "reset_config dump st = (write_config dump st default_config)\<lparr>config_cache := None\<rparr>"

text \<open>
  \<open>backup_config\<close>: \<open>now\<close> is the text of
  \<open>datetime.datetime.now().strftime("%Y%m%d_%H%M%S")\<close>.
\<close>

definition backup_config :: "string \<Rightarrow> 'b store \<Rightarrow> (pyerr + string) \<times> 'b store" where
  "backup_config now st =
     (case files st config_file of
        None \<Rightarrow> (Inl FileNotFoundError, st)
      | Some b \<Rightarrow>
          (let backup_file = config_dir @ ''/config_backup_'' @ now @ ''.yaml''
           in (Inr backup_file, st\<lparr>files := (files st)(backup_file \<mapsto> b)\<rparr>)))"

text \<open>
  \<open>restore_config\<close>: a \<open>yaml.YAMLError\<close> of the parse check becomes \<open>ValueError\<close>; any
  other exception of reading the backup (a \<open>UnicodeDecodeError\<close>) propagates as it is.
  The bytes written are read from the backup after the current configuration has
  been backed up.
\<close>

definition restore_config ::
  "('b \<Rightarrow> pyerr + yaml_value) \<Rightarrow> string \<Rightarrow> 'b store \<Rightarrow> string \<Rightarrow> (pyerr + unit) \<times> 'b store" where
  "restore_config load now st backup_file =
     (case files st backup_file of
        None \<Rightarrow> (Inl FileNotFoundError, st)
      | Some b \<Rightarrow>
          (case load b of
             Inl e \<Rightarrow> (Inl (if e = YAMLError then ValueError else e), st)
           | Inr y \<Rightarrow>
               (let st1 = (if files st config_file \<noteq> None then snd (backup_config now st) else st)
                in case files st1 backup_file of
                     None \<Rightarrow> (Inl FileNotFoundError, st1)
                   | Some b' \<Rightarrow>
                       (Inr (), st1\<lparr>files := (files st1)(config_file \<mapsto> b'),
                                     config_cache := None\<rparr>))))"

section \<open>Properties of the byte-size filter\<close>










section \<open>Properties of the configuration store\<close>










text \<open>
  Claim C7. When the backup exists and its content does not load, \<open>restore_config\<close>
  raises and returns the state it was given: no file is written, no backup of the
  current configuration is made, and the cache is kept. A \<open>yaml.YAMLError\<close> of the
  loader is raised as \<open>ValueError\<close>, the exception behind the specification's
  \<open>MalformedDocument\<close>.
\<close>

theorem restore_config_malformed:
  "files st backup_file = Some b \<and> load b = Inl e \<longrightarrow>
   restore_config load now st backup_file = (Inl (if e = YAMLError then ValueError else e), st)"
  by (simp add: restore_config_def)

theorem restore_config_malformed_witness:
  "restore_config id ''20240315_101500''
     \<lparr>files = [config_file \<mapsto> Inr (YDict default_config), ''invalid.yaml'' \<mapsto> Inl YAMLError],
      config_cache = Some default_config\<rparr> ''invalid.yaml''
   = (Inl ValueError,
      \<lparr>files = [config_file \<mapsto> Inr (YDict default_config), ''invalid.yaml'' \<mapsto> Inl YAMLError],
       config_cache = Some default_config\<rparr>)"
  using restore_config_malformed
      [of "\<lparr>files = [config_file \<mapsto> Inr (YDict default_config), ''invalid.yaml'' \<mapsto> Inl YAMLError],
      config_cache = Some default_config\<rparr>" "''invalid.yaml''" "Inl YAMLError" id YAMLError
      "''20240315_101500''"]
  by (simp add: config_file_def config_dir_def)

end
